theory Spec2Isabelle
  imports Complex_Main "HOL-Library.Multiset" "HOL-Library.Char_ord" "HOL-Library.List_Lexorder"
begin

section \<open>Python values\<close>

text \<open>
  The documents handled by the pipeline are what \<^verbatim>\<open>api_response.json()\<close> returns: JSON values
  as Python objects. Python's \<^verbatim>\<open>None\<close> is one of them, so "no record" and the JSON value
  \<^verbatim>\<open>null\<close> are the same value \<open>PNone\<close>, as they are in the source. A dict is an association
  list read with \<open>map_of\<close> (the first binding of a key is the one the dict holds). The type
  \<open>'f\<close> stands for Python's \<^verbatim>\<open>float\<close>; the pipeline only ever stores such a value.
\<close>

datatype 'f pyval =
    PNone
  | PBool bool
  | PInt int
  | PFloat 'f
  | PStr string
  | PList "'f pyval list"
  | PDict "(string \<times> 'f pyval) list"

datatype py_error = TypeError | ValueError | AttributeError | OverflowError

text \<open>
  The built-ins of Python that the source calls and that have no definition in the repository
  are parameters of the model: \<open>repr\<close> is what \<^verbatim>\<open>str(x)\<close> returns for an \<open>x\<close> that is not a
  \<^verbatim>\<open>str\<close>, \<open>float_of_str\<close> is \<^verbatim>\<open>float(s)\<close> on a string (\<open>None\<close> when it raises
  \<^verbatim>\<open>ValueError\<close>), \<open>float_of_int\<close> is the double nearest to an integer in range, and
  \<open>float_nonzero\<close> is the truth value of a float.
\<close>

record 'f py_builtins =
  repr :: "'f pyval \<Rightarrow> string"
  float_of_str :: "string \<Rightarrow> 'f option"
  float_of_int :: "int \<Rightarrow> 'f"
  float_nonzero :: "'f \<Rightarrow> bool"

text \<open>Truth value testing, as \<^verbatim>\<open>if not x\<close> and \<^verbatim>\<open>if x\<close> do it.\<close>

fun truthy :: "'f py_builtins \<Rightarrow> 'f pyval \<Rightarrow> bool" where
  "truthy B PNone = False"
| "truthy B (PBool b) = b"
| "truthy B (PInt n) = (n \<noteq> 0)"
| "truthy B (PFloat x) = float_nonzero B x"
| "truthy B (PStr s) = (s \<noteq> [])"
| "truthy B (PList vs) = (vs \<noteq> [])"
| "truthy B (PDict d) = (d \<noteq> [])"

text \<open>\<^verbatim>\<open>d.get(key, default)\<close> on a dict.\<close>

definition dict_get :: "(string \<times> 'f pyval) list \<Rightarrow> string \<Rightarrow> 'f pyval \<Rightarrow> 'f pyval" where
  "dict_get d k dflt = (case map_of d k of None \<Rightarrow> dflt | Some v \<Rightarrow> v)"

text \<open>\<^verbatim>\<open>str(x)\<close>: a string is returned as it is.\<close>

fun py_str :: "'f py_builtins \<Rightarrow> 'f pyval \<Rightarrow> string" where
  "py_str B (PStr s) = s"
| "py_str B v = repr B v"

text \<open>
  \<^verbatim>\<open>float(x)\<close>. An integer too large for a double raises \<^verbatim>\<open>OverflowError\<close>: the largest
  double is \<open>2^1024 - 2^971\<close> and conversion rounds to nearest, so it fails from
  \<open>2^1024 - 2^970\<close> on. A string that does not parse raises \<^verbatim>\<open>ValueError\<close>, a container
  or \<^verbatim>\<open>None\<close> raises \<^verbatim>\<open>TypeError\<close>.
\<close>

definition float_overflow :: "int \<Rightarrow> bool" where
  "float_overflow n \<longleftrightarrow> 2 ^ 1024 - 2 ^ 970 \<le> \<bar>n\<bar>"

fun py_float :: "'f py_builtins \<Rightarrow> 'f pyval \<Rightarrow> py_error + 'f" where
  "py_float B PNone = Inl TypeError"
| "py_float B (PBool b) = Inr (float_of_int B (if b then 1 else 0))"
| "py_float B (PInt n) = (if float_overflow n then Inl OverflowError else Inr (float_of_int B n))"
| "py_float B (PFloat x) = Inr x"
| "py_float B (PStr s) = (case float_of_str B s of None \<Rightarrow> Inl ValueError | Some x \<Rightarrow> Inr x)"
| "py_float B (PList vs) = Inl TypeError"
| "py_float B (PDict d) = Inl TypeError"

text \<open>
  \<^verbatim>\<open>for g in x\<close>: a list yields its elements, a string its characters as one-character
  strings, a dict its keys; anything else raises \<^verbatim>\<open>TypeError\<close>.
\<close>

fun py_iter :: "'f pyval \<Rightarrow> py_error + 'f pyval list" where
  "py_iter (PList vs) = Inr vs"
| "py_iter (PStr s) = Inr (map (\<lambda>c. PStr [c]) s)"
| "py_iter (PDict d) = Inr (map PStr (remdups (map fst d)))"
| "py_iter v = Inl TypeError"

text \<open>
  \<^verbatim>\<open>s.strip()\<close> removes leading and trailing whitespace. The characters of a \<open>string\<close> are
  the code points below 256, of which Python counts these as whitespace.
\<close>

definition is_space :: "char \<Rightarrow> bool" where
  "is_space c \<longleftrightarrow> (of_char c :: nat) \<in> {9, 10, 11, 12, 13, 28, 29, 30, 31, 32, 133, 160}"

definition strip :: "string \<Rightarrow> string" where
  "strip s = rev (dropWhile is_space (rev (dropWhile is_space s)))"

section \<open>schemas.py\<close>

record 'f MovieRow =
  row_id :: int
  title :: string
  vote_average :: "'f option"
  genres :: "string list"
  is_action :: bool

section \<open>movie\_report\_pipeline.py: the row transformer\<close>

text \<open>The condition of the comprehension: \<^verbatim>\<open>isinstance(g, dict) and g.get("name")\<close>.\<close>

fun genre_ok :: "'f py_builtins \<Rightarrow> 'f pyval \<Rightarrow> bool" where
  "genre_ok B (PDict g) = truthy B (dict_get g ''name'' PNone)"
| "genre_ok B v = False"

text \<open>Its element: \<^verbatim>\<open>str(g["name"]).strip()\<close>, evaluated only where \<open>genre_ok\<close> holds.\<close>

fun genre_name :: "'f py_builtins \<Rightarrow> 'f pyval \<Rightarrow> string" where
  "genre_name B (PDict g) = strip (py_str B (dict_get g ''name'' PNone))"
| "genre_name B v = []"

definition genre_names :: "'f py_builtins \<Rightarrow> 'f pyval list \<Rightarrow> string list" where
  "genre_names B raw_genres = map (genre_name B) (filter (genre_ok B) raw_genres)"

text \<open>
  The \<^verbatim>\<open>try\<close> block around \<^verbatim>\<open>float(vote_average)\<close>: \<^verbatim>\<open>ValueError\<close> and \<^verbatim>\<open>TypeError\<close> are
  caught and give \<^verbatim>\<open>None\<close>; any other exception leaves the function.
\<close>

definition vote_num :: "'f py_builtins \<Rightarrow> 'f pyval \<Rightarrow> py_error + 'f option" where
  "vote_num B vote_average' =
     (if vote_average' \<noteq> PNone then
        (case py_float B vote_average' of
           Inr x \<Rightarrow> Inr (Some x)
         | Inl e \<Rightarrow> if e = ValueError \<or> e = TypeError then Inr None else Inl e)
      else Inr None)"

definition make_movie_row :: "'f py_builtins \<Rightarrow> int \<Rightarrow> 'f pyval \<Rightarrow> py_error + 'f MovieRow" where
  "make_movie_row B movie_id api_data =
     (if \<not> truthy B api_data then
        Inr \<lparr>row_id = movie_id, title = [], vote_average = None, genres = [], is_action = False\<rparr>
      else
        (case api_data of
           PDict d \<Rightarrow>
             (let title' = py_str B (dict_get d ''title'' (PStr [])) in
              case vote_num B (dict_get d ''vote_average'' PNone) of
                Inl e \<Rightarrow> Inl e
              | Inr vote \<Rightarrow>
                  (case py_iter (dict_get d ''genres'' (PList [])) of
                     Inl e \<Rightarrow> Inl e
                   | Inr raw_genres \<Rightarrow>
                       (let names = sort (genre_names B raw_genres) in
                        Inr \<lparr>row_id = movie_id, title = title', vote_average = vote,
                             genres = names, is_action = (''Action'' \<in> set names)\<rparr>)))
         | _ \<Rightarrow> Inl AttributeError))"

section \<open>tmdb\_client.py: the record fetcher\<close>

text \<open>
  Durations are Python floats in the source; the model computes them in exact real
  arithmetic, so rounding is left out.
\<close>

record TMDBClient =
  api_key :: string
  language :: string
  request_timeout :: real
  max_retry_attempts :: int
  initial_backoff_seconds :: real

text \<open>The constructor with its default arguments.\<close>

definition TMDBClient_init :: "string \<Rightarrow> TMDBClient" where
  "TMDBClient_init key =
     \<lparr>api_key = key, language = ''en-US'', request_timeout = 10, max_retry_attempts = 3,
      initial_backoff_seconds = 1\<rparr>"

text \<open>
  What one call of \<^verbatim>\<open>http_session.get\<close> does: it returns a response with a status code and
  a body, or raises \<^verbatim>\<open>requests.RequestException\<close>. The body is \<open>Some v\<close> when it decodes to
  the value \<open>v\<close>, and \<open>None\<close> when \<^verbatim>\<open>api_response.json()\<close> raises; that exception is
  \<^verbatim>\<open>requests.exceptions.JSONDecodeError\<close>, a \<^verbatim>\<open>RequestException\<close>, and so it is handled by the
  same \<^verbatim>\<open>except\<close> clause as a transport failure.
\<close>

datatype 'f http_result = Response int "'f pyval option" | RequestException

text \<open>
  The effects of a fetch that the claims speak of: the number of requests sent and the
  durations passed to \<^verbatim>\<open>time.sleep\<close>, in order.
\<close>

record fetch_trace =
  requests :: nat
  sleeps :: "real list"

definition no_trace :: fetch_trace where
  "no_trace = \<lparr>requests = 0, sleeps = []\<rparr>"

text \<open>
  \<open>_wait_with_exponential_backoff\<close>. The value drawn by \<^verbatim>\<open>random.uniform(0, 0.5)\<close> is
  \<open>jitter_delay\<close>.
\<close>

definition wait_with_exponential_backoff ::
  "TMDBClient \<Rightarrow> real \<Rightarrow> nat \<Rightarrow> fetch_trace \<Rightarrow> fetch_trace" where
  "wait_with_exponential_backoff c jitter_delay attempt_number tr =
     (let exponential_delay = initial_backoff_seconds c * 2 ^ attempt_number;
          total_wait_time = exponential_delay + jitter_delay
      in tr\<lparr>sleeps := sleeps tr @ [total_wait_time]\<rparr>)"

definition transient_status :: "int \<Rightarrow> bool" where
  "transient_status s \<longleftrightarrow> s \<in> {429, 500, 502, 503, 504}"

text \<open>
  The loop of \<open>fetch_movie_details\<close> over the attempt numbers still to run. \<open>http k\<close> is the
  outcome of the request of attempt \<open>k\<close> and \<open>jitter k\<close> the random draw of the sleep after
  that attempt. Leaving the loop, by \<^verbatim>\<open>break\<close> or at its end, returns \<^verbatim>\<open>None\<close>.
\<close>

fun fetch_loop ::
  "TMDBClient \<Rightarrow> (nat \<Rightarrow> 'f http_result) \<Rightarrow> (nat \<Rightarrow> real) \<Rightarrow> nat list \<Rightarrow> fetch_trace
     \<Rightarrow> 'f pyval \<times> fetch_trace" where
  "fetch_loop c http jitter [] tr = (PNone, tr)"
| "fetch_loop c http jitter (current_attempt # rest) tr =
     (let tr1 = tr\<lparr>requests := Suc (requests tr)\<rparr>;
          on_exception =
            (if int current_attempt = max_retry_attempts c then (PNone, tr1)
             else fetch_loop c http jitter rest
                    (wait_with_exponential_backoff c (jitter current_attempt) current_attempt tr1))
      in case http current_attempt of
           RequestException \<Rightarrow> on_exception
         | Response status_code body \<Rightarrow>
             if status_code = 200 then
               (case body of Some v \<Rightarrow> (v, tr1) | None \<Rightarrow> on_exception)
             else if status_code = 404 then (PNone, tr1)
             else if transient_status status_code then
               fetch_loop c http jitter rest
                 (wait_with_exponential_backoff c (jitter current_attempt) current_attempt tr1)
             else (PNone, tr1))"

text \<open>\<^verbatim>\<open>range(self.max_retry_attempts + 1)\<close> is empty when the bound is not positive.\<close>

definition py_range :: "int \<Rightarrow> nat list" where
  "py_range n = [0..<nat n]"

definition fetch_movie_details ::
  "TMDBClient \<Rightarrow> (nat \<Rightarrow> 'f http_result) \<Rightarrow> (nat \<Rightarrow> real) \<Rightarrow> 'f pyval \<times> fetch_trace" where
  "fetch_movie_details c http jitter =
     fetch_loop c http jitter (py_range (max_retry_attempts c + 1)) no_trace"

section \<open>movie\_report\_pipeline.py: one task\<close>

text \<open>
  \<open>get_movie_data\<close> returns the pair of the row (or \<^verbatim>\<open>None\<close>) and the identifier; an
  exception of \<open>make_movie_row\<close> leaves it.
\<close>

definition get_movie_data ::
  "'f py_builtins \<Rightarrow> TMDBClient \<Rightarrow> (nat \<Rightarrow> 'f http_result) \<Rightarrow> (nat \<Rightarrow> real) \<Rightarrow> int
     \<Rightarrow> py_error + ('f MovieRow option \<times> int)" where
  "get_movie_data B client http jitter movie_id =
     (let api_data = fst (fetch_movie_details client http jitter) in
      if \<not> truthy B api_data then Inr (None, movie_id)
      else (case make_movie_row B movie_id api_data of
              Inl e \<Rightarrow> Inl e
            | Inr movie_row \<Rightarrow> Inr (Some movie_row, movie_id)))"

section \<open>report\_io.py: the writers\<close>

text \<open>
  A skipped input row as \<open>read_movie_ids_with_skips\<close> records it:
  \<open>(raw_value, row_number, reason)\<close>.
\<close>

type_synonym skipped_row = "string \<times> int \<times> string"

datatype cell = IntCell int | StrCell string

text \<open>
  What a writer did: it was not called or returned before opening the file, it wrote the
  rows, or it caught the error of the file system and logged it.
\<close>

datatype 'a io_result = NotWritten | Written 'a | WriteError

text \<open>
  \<open>write_failed_ids\<close>; \<open>os_error\<close> tells whether opening or writing the file raises
  \<^verbatim>\<open>OSError\<close>.
\<close>

definition write_failed_ids :: "int list \<Rightarrow> skipped_row list \<Rightarrow> bool \<Rightarrow> cell list list io_result" where
  "write_failed_ids failed_ids skipped_rows os_error =
     (if failed_ids = [] \<and> skipped_rows = [] then NotWritten
      else if os_error then WriteError
      else Written
        ([StrCell ''ID'', StrCell ''Reason'', StrCell ''RowNumber'']
         # map (\<lambda>mid. [IntCell mid, StrCell ''fetch-failed'', StrCell []]) (sort failed_ids)
         @ map (\<lambda>(raw_value, row_number, reason). [StrCell raw_value, StrCell reason, IntCell row_number])
             skipped_rows))"

text \<open>\<^verbatim>\<open>", ".join(xs)\<close>\<close>

fun join_comma :: "string list \<Rightarrow> string" where
  "join_comma [] = []"
| "join_comma [x] = x"
| "join_comma (x # y # ys) = x @ '', '' @ join_comma (y # ys)"

text \<open>
  \<open>write_excel\<close>: a sheet row is the four cells and whether the row is set in bold on red.
  \<open>save_error\<close> tells whether saving raises one of the errors the function catches.
\<close>

record 'f sheet_row =
  cell_id :: int
  cell_title :: string
  cell_vote :: "'f option"
  cell_genres :: string
  highlighted :: bool

definition write_excel :: "'f MovieRow list \<Rightarrow> bool \<Rightarrow> 'f sheet_row list io_result" where
  "write_excel rows save_error =
     (if save_error then WriteError
      else Written (map (\<lambda>movie. \<lparr>cell_id = row_id movie, cell_title = title movie,
                                   cell_vote = vote_average movie,
                                   cell_genres = join_comma (genres movie),
                                   highlighted = is_action movie\<rparr>) rows))"

section \<open>report\_io.py: the reader\<close>

text \<open>
  The loop of \<open>read_movie_ids_with_skips\<close> over the rows of the file, from row number 2 on.
  A row is the value of \<^verbatim>\<open>row.get("ID")\<close>, a string or \<^verbatim>\<open>None\<close>; \<open>py_int\<close> is \<^verbatim>\<open>int\<close> on a
  string, \<open>None\<close> when it raises \<^verbatim>\<open>ValueError\<close>.
\<close>

fun read_rows ::
  "(string \<Rightarrow> int option) \<Rightarrow> string option list \<Rightarrow> int
     \<Rightarrow> int list \<times> int set \<times> skipped_row list \<Rightarrow> int list \<times> skipped_row list" where
  "read_rows py_int [] row_num (movie_ids, seen_ids, skipped) = (movie_ids, skipped)"
| "read_rows py_int (raw_value # rest) row_num (movie_ids, seen_ids, skipped) =
     (let id_value = strip (case raw_value of None \<Rightarrow> [] | Some s \<Rightarrow> s) in
      if id_value = [] then
        read_rows py_int rest (row_num + 1)
          (movie_ids, seen_ids, skipped @ [(id_value, row_num, ''blank'')])
      else
        (case py_int id_value of
           None \<Rightarrow>
             read_rows py_int rest (row_num + 1)
               (movie_ids, seen_ids, skipped @ [(id_value, row_num, ''non-numeric'')])
         | Some movie_id \<Rightarrow>
             if movie_id \<le> 0 then
               read_rows py_int rest (row_num + 1)
                 (movie_ids, seen_ids, skipped @ [(id_value, row_num, ''non-positive'')])
             else if movie_id \<in> seen_ids then
               read_rows py_int rest (row_num + 1)
                 (movie_ids, seen_ids, skipped @ [(id_value, row_num, ''duplicate'')])
             else
               read_rows py_int rest (row_num + 1)
                 (movie_ids @ [movie_id], insert movie_id seen_ids, skipped)))"

section \<open>movie\_report\_pipeline.py: the run\<close>

text \<open>\<open>Config\<close>: a missing or empty \<^verbatim>\<open>TMDB_API_KEY\<close> raises \<^verbatim>\<open>ValueError\<close>.\<close>

definition Config :: "string option \<Rightarrow> py_error + string" where
  "Config env = (case env of None \<Rightarrow> Inl ValueError
                 | Some key \<Rightarrow> if key = [] then Inl ValueError else Inr key)"

text \<open>
  The loop over \<^verbatim>\<open>as_completed(future_to_id)\<close>. The futures arrive in the order of the list
  \<open>order\<close>; \<open>task mid\<close> is the result of the future submitted for \<open>mid\<close>, and
  \<^verbatim>\<open>future.result()\<close> raises again what the task raised, which ends the loop. A \<open>MovieRow\<close> is
  always true, so \<^verbatim>\<open>if movie_row\<close> tests for \<^verbatim>\<open>None\<close>.
\<close>

fun collect ::
  "(int \<Rightarrow> py_error + ('f MovieRow option \<times> int)) \<Rightarrow> int list
     \<Rightarrow> 'f MovieRow list \<times> int list \<Rightarrow> py_error + ('f MovieRow list \<times> int list)" where
  "collect task [] (movie_rows, failed_ids) = Inr (movie_rows, failed_ids)"
| "collect task (mid # order) (movie_rows, failed_ids) =
     (case task mid of
        Inl e \<Rightarrow> Inl e
      | Inr (Some movie_row, movie_id) \<Rightarrow> collect task order (movie_rows @ [movie_row], failed_ids)
      | Inr (None, movie_id) \<Rightarrow> collect task order (movie_rows, failed_ids @ [movie_id]))"

text \<open>
  Everything a run depends on: the environment, what \<open>read_movie_ids_with_skips\<close> returned,
  the provider's answer to each attempt for each identifier, the random draws, the order in
  which the futures complete, whether the two writers meet an error, and the two readings of
  \<^verbatim>\<open>time.perf_counter()\<close>.
\<close>

record 'f world =
  env_key :: "string option"
  input_ids :: "int list"
  input_skips :: "skipped_row list"
  server :: "int \<Rightarrow> nat \<Rightarrow> 'f http_result"
  draws :: "int \<Rightarrow> nat \<Rightarrow> real"
  completion :: "int list"
  excel_error :: bool
  dlq_error :: bool
  time_start :: real
  time_end :: real

text \<open>The line logged at the end of a run.\<close>

record summary =
  processed_count :: nat
  failed_count :: nat
  skipped_count :: nat
  elapsed_seconds :: real
  req_per_sec :: real

text \<open>
  What a run that reaches its last line has done: the rows passed to \<open>write_excel\<close> if it was
  called, the results of the two writers, both result lists, and the summary.
\<close>

record 'f report =
  excel_input :: "'f MovieRow list option"
  excel :: "'f sheet_row list io_result"
  dead_letter :: "cell list list io_result"
  final_rows :: "'f MovieRow list"
  final_failed :: "int list"
  logged :: summary

text \<open>
  How \<open>main\<close> ends: \<^verbatim>\<open>sys.exit(1)\<close>, the early \<^verbatim>\<open>return\<close> when there is no identifier, an
  exception that leaves it, or its last line.
\<close>

datatype 'f run = SysExit int | NoValidIds | Raised py_error | Complete "'f report"

definition main :: "'f py_builtins \<Rightarrow> 'f world \<Rightarrow> 'f run" where
  "main B w =
     (case Config (env_key w) of
        Inl e \<Rightarrow> SysExit 1
      | Inr key \<Rightarrow>
          (let client = TMDBClient_init key;
               movie_ids = input_ids w;
               skipped_rows = input_skips w
           in if movie_ids = [] then NoValidIds
              else
                (case collect (\<lambda>mid. get_movie_data B client (server w mid) (draws w mid) mid)
                        (completion w) ([], []) of
                   Inl e \<Rightarrow> Raised e
                 | Inr (movie_rows, failed_ids) \<Rightarrow>
                     (let sorted_rows = sort_key row_id movie_rows;
                          total_failed_like = length failed_ids + length skipped_rows;
                          elapsed = max (time_end w - time_start w) 0
                      in Complete
                           \<lparr>excel_input = (if movie_rows \<noteq> [] then Some sorted_rows else None),
                            excel = (if movie_rows \<noteq> [] then write_excel sorted_rows (excel_error w)
                                     else NotWritten),
                            dead_letter = (if total_failed_like \<noteq> 0
                                           then write_failed_ids failed_ids skipped_rows (dlq_error w)
                                           else NotWritten),
                            final_rows = (if movie_rows \<noteq> [] then sorted_rows else movie_rows),
                            final_failed = failed_ids,
                            logged = \<lparr>processed_count = length movie_rows,
                                      failed_count = length failed_ids,
                                      skipped_count = length skipped_rows,
                                      elapsed_seconds = elapsed,
                                      req_per_sec = (if elapsed > 0
                                                     then real (length movie_ids) / elapsed
                                                     else 0)\<rparr>\<rparr>))))"

section \<open>An instance of the built-ins\<close>

text \<open>
  An instance of the parameters for evaluating the model on documents that hold no float and
  no value that \<^verbatim>\<open>str\<close> or \<^verbatim>\<open>float\<close> has to convert; on such documents no field of it is
  consulted.
\<close>

definition sample_builtins :: "unit py_builtins" where
  "sample_builtins = \<lparr>repr = (\<lambda>v. []), float_of_str = (\<lambda>s. None), float_of_int = (\<lambda>n. ()),
     float_nonzero = (\<lambda>x. True)\<rparr>"

text \<open>
  A run for evaluation: three identifiers, of which 550 and 634649 are answered with a
  document and 9999 with status 404, one skipped input row, and the futures completing in an
  order that is not the input order.
\<close>

definition sample_server :: "int \<Rightarrow> nat \<Rightarrow> unit http_result" where
  "sample_server mid k =
     (if mid = 550 then
        Response 200 (Some (PDict [(''title'', PStr ''Fight Club''),
                                   (''genres'', PList [PDict [(''name'', PStr ''Drama'')]])]))
      else if mid = 634649 then
        Response 200 (Some (PDict [(''title'', PStr ''Spider-Man''),
                                   (''genres'', PList [PDict [(''name'', PStr ''Adventure'')],
                                                        PDict [(''name'', PStr ''Action'')]])]))
      else Response 404 None)"

definition sample_world :: "unit world" where
  "sample_world =
     \<lparr>env_key = Some ''key'', input_ids = [550, 9999, 634649],
      input_skips = [(''abc'', 5, ''non-numeric'')], server = sample_server,
      draws = (\<lambda>mid k. 0), completion = [634649, 9999, 550], excel_error = False,
      dlq_error = False, time_start = 0, time_end = 2\<rparr>"

text \<open>What that run does, as evaluation shows below.\<close>

definition sample_report :: "unit report" where
  "sample_report =
     \<lparr>excel_input =
        Some [\<lparr>row_id = 550, title = ''Fight Club'', vote_average = None, genres = [''Drama''],
                is_action = False\<rparr>,
              \<lparr>row_id = 634649, title = ''Spider-Man'', vote_average = None,
                genres = [''Action'', ''Adventure''], is_action = True\<rparr>],
      excel =
        Written [\<lparr>cell_id = 550, cell_title = ''Fight Club'', cell_vote = None,
                   cell_genres = ''Drama'', highlighted = False\<rparr>,
                 \<lparr>cell_id = 634649, cell_title = ''Spider-Man'', cell_vote = None,
                   cell_genres = ''Action, Adventure'', highlighted = True\<rparr>],
      dead_letter =
        Written [[StrCell ''ID'', StrCell ''Reason'', StrCell ''RowNumber''],
                 [IntCell 9999, StrCell ''fetch-failed'', StrCell []],
                 [StrCell ''abc'', StrCell ''non-numeric'', IntCell 5]],
      final_rows =
        [\<lparr>row_id = 550, title = ''Fight Club'', vote_average = None, genres = [''Drama''],
           is_action = False\<rparr>,
         \<lparr>row_id = 634649, title = ''Spider-Man'', vote_average = None,
           genres = [''Action'', ''Adventure''], is_action = True\<rparr>],
      final_failed = [9999],
      logged = \<lparr>processed_count = 2, failed_count = 1, skipped_count = 1,
                 elapsed_seconds = 2, req_per_sec = 3 / 2\<rparr>\<rparr>"

section \<open>Properties of the record fetcher\<close>





text \<open>
  A 404 or an unrecoverable status ends the loop at the attempt that receives it, whatever
  is left of the budget: one more request is counted and nothing is slept.
\<close>

lemma fetch_loop_final:
  assumes "http k = Response s b"
    and "s = 404 \<or> (s \<noteq> 200 \<and> s \<noteq> 404 \<and> \<not> transient_status s)"
  shows "fetch_loop c http jitter (k # ks) tr = (PNone, tr\<lparr>requests := Suc (requests tr)\<rparr>)"
  using assms by auto

text \<open>
  C4. If the request receives status 404, or a status that is neither 200 nor 404 nor
  transient, the fetcher returns \<^verbatim>\<open>None\<close> after exactly one request and without sleeping.
\<close>

theorem fetch_short_circuit:
  assumes "0 \<le> max_retry_attempts c"
    and "http 0 = Response s b"
    and "s = 404 \<or> (s \<noteq> 200 \<and> s \<noteq> 404 \<and> \<not> transient_status s)"
  shows "fetch_movie_details c http jitter = (PNone, \<lparr>requests = 1, sleeps = []\<rparr>)"
proof -
  from assms(1) have "py_range (max_retry_attempts c + 1) = 0 # [1..<nat (max_retry_attempts c + 1)]"
    by (simp add: py_range_def upt_conv_Cons)
  then have "fetch_movie_details c http jitter =
      fetch_loop c http jitter (0 # [1..<nat (max_retry_attempts c + 1)]) no_trace"
    by (simp only: fetch_movie_details_def)
  also have "\<dots> = (PNone, no_trace\<lparr>requests := Suc (requests no_trace)\<rparr>)"
    using assms(2,3) by (rule fetch_loop_final)
  finally show ?thesis
    by (simp add: no_trace_def)
qed

theorem fetch_short_circuit_witness:
  "0 \<le> max_retry_attempts (TMDBClient_init ''key'') \<and>
   fetch_movie_details (TMDBClient_init ''key'')
     (\<lambda>k. if k = 0 then Response 403 (None :: unit pyval option) else Response 200 (Some (PDict [])))
     (\<lambda>k. 0) = (PNone, \<lparr>requests = 1, sleeps = []\<rparr>)"
  using fetch_short_circuit [of "TMDBClient_init ''key''"
      "\<lambda>k. if k = 0 then Response 403 (None :: unit pyval option) else Response 200 (Some (PDict []))"
      403 None "\<lambda>k. 0"]
  by (simp add: TMDBClient_init_def transient_status_def)




section \<open>Properties of the row transformer\<close>

text \<open>
  Whatever the input, a row returned by \<open>make_movie_row\<close> carries the identifier it was given,
  its genres are sorted, and its flag says whether \<open>Action\<close> is among them.
\<close>

lemma make_movie_row_Inr:
  assumes "make_movie_row B movie_id api_data = Inr r"
  shows "row_id r = movie_id \<and> sorted (genres r) \<and> is_action r = (''Action'' \<in> set (genres r))"
  using assms
  by (auto simp: make_movie_row_def Let_def split: if_splits pyval.splits sum.splits)

text \<open>
  C7. For a document whose \<open>genres\<close> field is a list, the genres of the row are sorted
  ascending in the order of strings (by character code, so case-sensitive), they are the names
  of the well-formed entries with their duplicates, one per entry, and \<open>is_action\<close> holds
  exactly when the string \<open>Action\<close> is one of them.
\<close>

theorem genres_sorted_flagged:
  assumes "map_of d ''genres'' = Some (PList raw_genres)"
    and "make_movie_row B movie_id (PDict d) = Inr r"
  shows "sorted (genres r) \<and> mset (genres r) = mset (genre_names B raw_genres) \<and>
         length (genres r) = length (filter (genre_ok B) raw_genres) \<and>
         (is_action r \<longleftrightarrow> ''Action'' \<in> set (genres r))"
proof -
  from assms(1) have d: "d \<noteq> []" by auto
  from assms(1) have g: "dict_get d ''genres'' (PList []) = PList raw_genres"
    by (simp add: dict_get_def)
  from assms(2) d g have "genres r = sort (genre_names B raw_genres)"
    by (auto simp: make_movie_row_def Let_def split: sum.splits)
  with make_movie_row_Inr [OF assms(2)] show ?thesis
    by (simp add: genre_names_def)
qed

theorem genres_sorted_flagged_witness:
  "map_of [(''genres'', PList [PDict [(''name'', PStr ''Adventure'')], PDict [(''name'', PStr ''Action'')]])]
      ''genres'' = Some (PList [PDict [(''name'', PStr ''Adventure'')], PDict [(''name'', PStr ''Action'')]]) \<and>
   make_movie_row sample_builtins 1
      (PDict [(''genres'', PList [PDict [(''name'', PStr ''Adventure'')], PDict [(''name'', PStr ''Action'')]])])
     = Inr \<lparr>row_id = 1, title = [], vote_average = None, genres = [''Action'', ''Adventure''],
            is_action = True\<rparr> \<and>
   sorted [''Action'', ''Adventure''] \<and> ''Action'' \<in> set [''Action'', ''Adventure'']"
proof -
  let ?gs = "[PDict [(''name'', PStr ''Adventure'')], PDict [(''name'', PStr ''Action'')]] :: unit pyval list"
  let ?r = "\<lparr>row_id = 1, title = [], vote_average = None, genres = [''Action'', ''Adventure''],
            is_action = True\<rparr> :: unit MovieRow"
  have look: "map_of [(''genres'', PList ?gs)] ''genres'' = Some (PList ?gs)"
    by simp
  have run: "make_movie_row sample_builtins 1 (PDict [(''genres'', PList ?gs)]) = Inr ?r"
    by (simp add: make_movie_row_def sample_builtins_def dict_get_def vote_num_def genre_names_def
        strip_def is_space_def)
  from genres_sorted_flagged [OF look run] look run show ?thesis
    by simp
qed

text \<open>
  C8. The transformer is not total on fully populated documents: \<^verbatim>\<open>float\<close> raises
  \<^verbatim>\<open>OverflowError\<close> on an integer beyond the range of a double, and the \<^verbatim>\<open>except\<close> clause of
  \<open>make_movie_row\<close> catches \<^verbatim>\<open>ValueError\<close> and \<^verbatim>\<open>TypeError\<close> only. On the document
  \<^verbatim>\<open>{"title": "x", "vote_average": 10**400, "genres": []}\<close> the function raises instead of
  returning a row without score.
\<close>

theorem make_movie_row_overflow:
  "make_movie_row B 1
     (PDict [(''title'', PStr ''x''), (''vote_average'', PInt (10 ^ 400)), (''genres'', PList [])])
   = Inl OverflowError"
  by (simp add: make_movie_row_def dict_get_def vote_num_def float_overflow_def)

text \<open>
  Apart from that case the transformer returns a row on the shapes of the claim: no record,
  the empty document, and a document whose \<open>genres\<close> field is missing or a list with entries
  of any kind.
\<close>

lemma vote_num_cases:
  "vote_num B v = (case v of PInt n \<Rightarrow> if float_overflow n then Inl OverflowError else Inr (Some (float_of_int B n))
       | PNone \<Rightarrow> Inr None
       | PBool b \<Rightarrow> Inr (Some (float_of_int B (if b then 1 else 0)))
       | PFloat x \<Rightarrow> Inr (Some x)
       | PStr s \<Rightarrow> Inr (float_of_str B s)
       | _ \<Rightarrow> Inr None)"
  by (cases v) (auto simp: vote_num_def split: option.splits)

lemma make_movie_row_total:
  assumes shape: "api_data = PNone \<or> (\<exists>d. api_data = PDict d \<and>
            (map_of d ''genres'' = None \<or> (\<exists>gs. map_of d ''genres'' = Some (PList gs))) \<and>
            (\<forall>n. map_of d ''vote_average'' = Some (PInt n) \<longrightarrow> \<not> float_overflow n))"
  shows "\<exists>r. make_movie_row B movie_id api_data = Inr r"
  using shape
  by (auto simp: make_movie_row_def Let_def dict_get_def vote_num_cases split: option.splits pyval.splits)

lemma make_movie_row_default:
  "\<not> truthy B api_data \<Longrightarrow> make_movie_row B movie_id api_data =
     Inr \<lparr>row_id = movie_id, title = [], vote_average = None, genres = [], is_action = False\<rparr>"
  by (simp add: make_movie_row_def)

section \<open>Properties of the failure report\<close>

text \<open>
  C9. When there is something to report and the file can be written, the report is the header,
  then one line per failed identifier in ascending order, each with the reason
  \<open>fetch-failed\<close> and an empty row number, then one line per skipped input row in the order of
  the list, each with its raw value, its reason and its row number.
\<close>

theorem failed_report_order:
  assumes "failed_ids \<noteq> [] \<or> skipped_rows \<noteq> []" and "\<not> os_error"
  shows "\<exists>ids. sorted ids \<and> mset ids = mset failed_ids \<and>
           write_failed_ids failed_ids skipped_rows os_error =
             Written ([StrCell ''ID'', StrCell ''Reason'', StrCell ''RowNumber'']
               # map (\<lambda>mid. [IntCell mid, StrCell ''fetch-failed'', StrCell []]) ids
               @ map (\<lambda>(raw_value, row_number, reason).
                        [StrCell raw_value, StrCell reason, IntCell row_number]) skipped_rows)"
  using assms
  by (intro exI [of _ "sort failed_ids"]) (auto simp: write_failed_ids_def)

theorem failed_report_order_witness:
  "[9, 3 :: int] \<noteq> [] \<and>
   write_failed_ids [9, 3] [(''399S79'', 117, ''non-numeric''), ('''', 5, ''blank'')] False =
     Written [[StrCell ''ID'', StrCell ''Reason'', StrCell ''RowNumber''],
              [IntCell 3, StrCell ''fetch-failed'', StrCell []],
              [IntCell 9, StrCell ''fetch-failed'', StrCell []],
              [StrCell ''399S79'', StrCell ''non-numeric'', IntCell 117],
              [StrCell [], StrCell ''blank'', IntCell 5]]"
  using failed_report_order [of "[9, 3]" "[(''399S79'', 117, ''non-numeric''), ('''', 5, ''blank'')]" False]
  by (simp add: write_failed_ids_def)

section \<open>Properties of one task and of the collecting loop\<close>

text \<open>
  A task that returns a row returns it with its own identifier, for a truthy fetch result; a
  task that returns no row had a fetch result that Python counts as false.
\<close>

lemma get_movie_data_Some:
  assumes "get_movie_data B client http jitter m = Inr (Some r, mid)"
  shows "mid = m \<and> row_id r = m \<and> truthy B (fst (fetch_movie_details client http jitter)) \<and>
         make_movie_row B m (fst (fetch_movie_details client http jitter)) = Inr r"
  using assms make_movie_row_Inr [of B m "fst (fetch_movie_details client http jitter)" r]
  by (auto simp: get_movie_data_def Let_def split: if_splits sum.splits)

lemma get_movie_data_None:
  assumes "get_movie_data B client http jitter m = Inr (None, mid)"
  shows "mid = m \<and> \<not> truthy B (fst (fetch_movie_details client http jitter))"
  using assms
  by (auto simp: get_movie_data_def Let_def split: if_splits sum.splits)

text \<open>
  A loop that ends normally has appended, in the order of completion, the row of every task
  that returned one and the identifier of every task that returned none; and no task raised.
\<close>

lemma collect_Inr:
  assumes "collect task order (rows, failed) = Inr (rows', failed')"
  shows "rows' = rows @ List.map_filter (\<lambda>m. case task m of Inr (Some r, mid) \<Rightarrow> Some r | _ \<Rightarrow> None) order \<and>
         failed' = failed @ List.map_filter (\<lambda>m. case task m of Inr (None, mid) \<Rightarrow> Some mid | _ \<Rightarrow> None) order \<and>
         (\<forall>m \<in> set order. \<exists>res. task m = Inr res)"
  using assms
proof (induction order arbitrary: rows failed)
  case Nil
  then show ?case by (simp add: List.map_filter_simps)
next
  case (Cons m order)
  show ?case
  proof (cases "task m")
    case (Inl e)
    with Cons.prems show ?thesis by simp
  next
    case (Inr res)
    obtain ro mid where res: "res = (ro, mid)" by (cases res)
    show ?thesis
    proof (cases ro)
      case None
      with Inr res Cons.prems have "collect task order (rows, failed @ [mid]) = Inr (rows', failed')"
        by simp
      from Cons.IH [OF this] Inr res None show ?thesis
        by (simp add: List.map_filter_simps)
    next
      case (Some r)
      with Inr res Cons.prems have "collect task order (rows @ [r], failed) = Inr (rows', failed')"
        by simp
      from Cons.IH [OF this] Inr res Some show ?thesis
        by (simp add: List.map_filter_simps)
    qed
  qed
qed

text \<open>If no task raises, the loop ends normally.\<close>

lemma collect_total:
  assumes "\<forall>m \<in> set order. \<exists>res. task m = Inr res"
  shows "\<exists>rows' failed'. collect task order (rows, failed) = Inr (rows', failed')"
  using assms
proof (induction order arbitrary: rows failed)
  case Nil
  then show ?case by simp
next
  case (Cons m order)
  then obtain ro mid where res: "task m = Inr (ro, mid)" by fastforce
  from Cons.prems have rest: "\<forall>m \<in> set order. \<exists>res. task m = Inr res" by simp
  show ?case
    using res Cons.IH [OF rest] by (cases ro) simp_all
qed

text \<open>
  With the tasks of the run, the collected rows are the rows of the identifiers whose fetch
  result is truthy, in the order of completion, and the failed identifiers are the others.
\<close>

lemma collect_lists:
  fixes B :: "'f py_builtins"
  assumes "collect (\<lambda>mid. get_movie_data B c (srv mid) (jit mid) mid) order ([], []) = Inr (rows, failed)"
  shows "rows = map (\<lambda>m. projr (make_movie_row B m (fst (fetch_movie_details c (srv m) (jit m)))))
                  (filter (\<lambda>m. truthy B (fst (fetch_movie_details c (srv m) (jit m)))) order)"
    and "failed = filter (\<lambda>m. \<not> truthy B (fst (fetch_movie_details c (srv m) (jit m)))) order"
    and "\<forall>m \<in> set order. truthy B (fst (fetch_movie_details c (srv m) (jit m))) \<longrightarrow>
           (\<exists>r. make_movie_row B m (fst (fetch_movie_details c (srv m) (jit m))) = Inr r \<and> row_id r = m)"
proof -
  let ?task = "\<lambda>mid. get_movie_data B c (srv mid) (jit mid) mid"
  let ?data = "\<lambda>m. fst (fetch_movie_details c (srv m) (jit m)) :: 'f pyval"
  let ?f = "\<lambda>m. case ?task m of Inr (Some r, mid) \<Rightarrow> Some r | _ \<Rightarrow> None"
  let ?g = "\<lambda>m. case ?task m of Inr (None, mid) \<Rightarrow> Some mid | _ \<Rightarrow> None"
  from collect_Inr [OF assms] have
    rows: "rows = List.map_filter ?f order" and
    failed: "failed = List.map_filter ?g order" and
    ok: "\<forall>m \<in> set order. \<exists>res. ?task m = Inr res"
    by simp_all
  have row: "\<exists>r. make_movie_row B m (?data m) = Inr r \<and> row_id r = m \<and> ?f m = Some r \<and> ?g m = None"
    if "m \<in> set order" "truthy B (?data m)" for m
  proof -
    from ok that(1) obtain res where res: "?task m = Inr res" by blast
    with that(2) obtain r where r: "make_movie_row B m (?data m) = Inr r"
      by (auto simp: get_movie_data_def Let_def split: sum.splits)
    with that(2) have "?task m = Inr (Some r, m)"
      by (simp add: get_movie_data_def Let_def)
    with r make_movie_row_Inr [OF r] show ?thesis by simp
  qed
  have norow: "?f m = None \<and> ?g m = Some m" if "\<not> truthy B (?data m)" for m
    using that by (simp add: get_movie_data_def Let_def)
  from row show "\<forall>m \<in> set order. truthy B (?data m) \<longrightarrow>
           (\<exists>r. make_movie_row B m (?data m) = Inr r \<and> row_id r = m)"
    by blast
  have "List.map_filter ?f xs = map (\<lambda>m. projr (make_movie_row B m (?data m)))
                  (filter (\<lambda>m. truthy B (?data m)) xs)" if "set xs \<subseteq> set order" for xs
    using that
  proof (induction xs)
    case Nil
    then show ?case by (simp add: List.map_filter_simps)
  next
    case (Cons m xs)
    then have m: "m \<in> set order" and xs: "set xs \<subseteq> set order" by simp_all
    show ?case
    proof (cases "truthy B (?data m)")
      case True
      from row [OF m True] obtain r where "make_movie_row B m (?data m) = Inr r" "?f m = Some r"
        by blast
      with True Cons.IH [OF xs] show ?thesis
        by (simp add: List.map_filter_simps)
    next
      case False
      with norow [OF False] Cons.IH [OF xs] show ?thesis
        by (simp add: List.map_filter_simps)
    qed
  qed
  with rows show "rows = map (\<lambda>m. projr (make_movie_row B m (?data m)))
                  (filter (\<lambda>m. truthy B (?data m)) order)"
    by simp
  have "List.map_filter ?g xs = filter (\<lambda>m. \<not> truthy B (?data m)) xs" if "set xs \<subseteq> set order" for xs
    using that
  proof (induction xs)
    case Nil
    then show ?case by (simp add: List.map_filter_simps)
  next
    case (Cons m xs)
    then have m: "m \<in> set order" and xs: "set xs \<subseteq> set order" by simp_all
    show ?case
    proof (cases "truthy B (?data m)")
      case True
      from row [OF m True] have "?g m = None" by blast
      with True Cons.IH [OF xs] show ?thesis
        by (simp add: List.map_filter_simps)
    next
      case False
      with norow [OF False] Cons.IH [OF xs] show ?thesis
        by (simp add: List.map_filter_simps)
    qed
  qed
  with failed show "failed = filter (\<lambda>m. \<not> truthy B (?data m)) order"
    by simp
qed

lemma collect_row_ids:
  fixes B :: "'f py_builtins"
  assumes "collect (\<lambda>mid. get_movie_data B c (srv mid) (jit mid) mid) order ([], []) = Inr (rows, failed)"
  shows "map row_id rows = filter (\<lambda>m. truthy B (fst (fetch_movie_details c (srv m) (jit m)))) order"
proof -
  have "map row_id (map (\<lambda>m. projr (make_movie_row B m (fst (fetch_movie_details c (srv m) (jit m)))))
                  (filter (\<lambda>m. truthy B (fst (fetch_movie_details c (srv m) (jit m)))) order))
        = filter (\<lambda>m. truthy B (fst (fetch_movie_details c (srv m) (jit m)))) order"
    unfolding map_map
  proof (rule map_idI)
    fix m assume "m \<in> set (filter (\<lambda>m. truthy B (fst (fetch_movie_details c (srv m) (jit m)))) order)"
    then have "m \<in> set order" "truthy B (fst (fetch_movie_details c (srv m) (jit m)))" by simp_all
    with collect_lists(3) [OF assms] obtain r where
      "make_movie_row B m (fst (fetch_movie_details c (srv m) (jit m))) = Inr r" "row_id r = m"
      by blast
    then show "(row_id \<circ> (\<lambda>m. projr (make_movie_row B m (fst (fetch_movie_details c (srv m) (jit m)))))) m = m"
      by simp
  qed
  with collect_lists(1) [OF assms] show ?thesis by simp
qed

section \<open>Properties of the run\<close>

text \<open>What a run that reaches its last line has computed, and when a run reaches it.\<close>

lemma main_CompleteD:
  assumes "main B w = Complete r"
  shows "\<exists>key movie_rows failed_ids.
           env_key w = Some key \<and> key \<noteq> [] \<and> input_ids w \<noteq> [] \<and>
           collect (\<lambda>mid. get_movie_data B (TMDBClient_init key) (server w mid) (draws w mid) mid)
             (completion w) ([], []) = Inr (movie_rows, failed_ids) \<and>
           final_rows r = sort_key row_id movie_rows \<and>
           final_failed r = failed_ids \<and>
           excel_input r = (if movie_rows \<noteq> [] then Some (sort_key row_id movie_rows) else None) \<and>
           excel r = (if movie_rows \<noteq> [] then write_excel (sort_key row_id movie_rows) (excel_error w)
                      else NotWritten) \<and>
           dead_letter r = (if failed_ids \<noteq> [] \<or> input_skips w \<noteq> []
                            then write_failed_ids failed_ids (input_skips w) (dlq_error w)
                            else NotWritten) \<and>
           logged r = \<lparr>processed_count = length movie_rows, failed_count = length failed_ids,
                       skipped_count = length (input_skips w),
                       elapsed_seconds = max (time_end w - time_start w) 0,
                       req_per_sec = (if max (time_end w - time_start w) 0 > 0
                                      then real (length (input_ids w)) / max (time_end w - time_start w) 0
                                      else 0)\<rparr>"
proof -
  let ?task = "\<lambda>key mid. get_movie_data B (TMDBClient_init key) (server w mid) (draws w mid) mid"
  from assms obtain key where k: "Config (env_key w) = Inr key"
    by (cases "Config (env_key w)") (simp_all add: main_def)
  then have ek: "env_key w = Some key" "key \<noteq> []"
    by (auto simp: Config_def split: option.splits if_splits)
  from assms k have ne: "input_ids w \<noteq> []"
    by (auto simp: main_def Let_def)
  from assms k ne obtain movie_rows failed_ids where
    c: "collect (?task key) (completion w) ([], []) = Inr (movie_rows, failed_ids)"
    by (cases "collect (?task key) (completion w) ([], [])") (auto simp: main_def Let_def)
  from assms k ne c have
    "r = \<lparr>excel_input = (if movie_rows \<noteq> [] then Some (sort_key row_id movie_rows) else None),
          excel = (if movie_rows \<noteq> [] then write_excel (sort_key row_id movie_rows) (excel_error w)
                   else NotWritten),
          dead_letter = (if length failed_ids + length (input_skips w) \<noteq> 0
                         then write_failed_ids failed_ids (input_skips w) (dlq_error w)
                         else NotWritten),
          final_rows = (if movie_rows \<noteq> [] then sort_key row_id movie_rows else movie_rows),
          final_failed = failed_ids,
          logged = \<lparr>processed_count = length movie_rows, failed_count = length failed_ids,
                    skipped_count = length (input_skips w),
                    elapsed_seconds = max (time_end w - time_start w) 0,
                    req_per_sec = (if max (time_end w - time_start w) 0 > 0
                                   then real (length (input_ids w)) / max (time_end w - time_start w) 0
                                   else 0)\<rparr>\<rparr>"
    by (simp add: main_def Let_def)
  then have fields:
    "final_rows r = sort_key row_id movie_rows" "final_failed r = failed_ids"
    "excel_input r = (if movie_rows \<noteq> [] then Some (sort_key row_id movie_rows) else None)"
    "excel r = (if movie_rows \<noteq> [] then write_excel (sort_key row_id movie_rows) (excel_error w)
                      else NotWritten)"
    "dead_letter r = (if failed_ids \<noteq> [] \<or> input_skips w \<noteq> []
                            then write_failed_ids failed_ids (input_skips w) (dlq_error w)
                            else NotWritten)"
    "logged r = \<lparr>processed_count = length movie_rows, failed_count = length failed_ids,
                       skipped_count = length (input_skips w),
                       elapsed_seconds = max (time_end w - time_start w) 0,
                       req_per_sec = (if max (time_end w - time_start w) 0 > 0
                                      then real (length (input_ids w)) / max (time_end w - time_start w) 0
                                      else 0)\<rparr>"
    by simp_all
  show ?thesis
    apply (rule exI [of _ key], rule exI [of _ movie_rows], rule exI [of _ failed_ids])
    using ek ne c fields by blast
qed

lemma main_CompleteI:
  assumes "env_key w = Some key" and "key \<noteq> []" and "input_ids w \<noteq> []"
    and "collect (\<lambda>mid. get_movie_data B (TMDBClient_init key) (server w mid) (draws w mid) mid)
             (completion w) ([], []) = Inr (movie_rows, failed_ids)"
  shows "\<exists>r. main B w = Complete r"
  using assms
  by (simp add: main_def Config_def Let_def)

lemma main_Complete_fields:
  fixes B :: "'f py_builtins"
  assumes "env_key w = Some key" and "key \<noteq> []" and "input_ids w \<noteq> []"
    and "collect (\<lambda>mid. get_movie_data B (TMDBClient_init key) (server w mid) (draws w mid) mid)
             (completion w) ([], []) = Inr (movie_rows, failed_ids)"
  shows "\<exists>r. main B w = Complete r \<and>
           final_rows r = sort_key row_id movie_rows \<and>
           final_failed r = failed_ids \<and>
           excel_input r = (if movie_rows \<noteq> [] then Some (sort_key row_id movie_rows) else None) \<and>
           excel r = (if movie_rows \<noteq> [] then write_excel (sort_key row_id movie_rows) (excel_error w)
                      else NotWritten) \<and>
           dead_letter r = (if failed_ids \<noteq> [] \<or> input_skips w \<noteq> []
                            then write_failed_ids failed_ids (input_skips w) (dlq_error w)
                            else NotWritten) \<and>
           logged r = \<lparr>processed_count = length movie_rows, failed_count = length failed_ids,
                       skipped_count = length (input_skips w),
                       elapsed_seconds = max (time_end w - time_start w) 0,
                       req_per_sec = (if max (time_end w - time_start w) 0 > 0
                                      then real (length (input_ids w)) / max (time_end w - time_start w) 0
                                      else 0)\<rparr>"
proof -
  from main_CompleteI [OF assms] obtain r where r: "main B w = Complete r" by blast
  from main_CompleteD [OF r] assms(1,4) r show ?thesis
    by (intro exI [of _ r]) auto
qed

text \<open>
  C10. In a run that reaches its end, with the futures completing in any order of the
  submitted identifiers, the identifiers of the rows together with the failed identifiers are
  exactly the submitted identifiers with their multiplicities; no identifier is in both; when
  the submitted identifiers are distinct (as the reader leaves them), each occurs exactly once
  over both lists; and every row is the row returned, under its own identifier, by the task
  submitted for that identifier.
\<close>

theorem dispatch_partition:
  fixes B :: "'f py_builtins"
  assumes "main B w = Complete r"
    and "mset (completion w) = mset (input_ids w)"
  shows "mset (map row_id (final_rows r)) + mset (final_failed r) = mset (input_ids w) \<and>
         set (map row_id (final_rows r)) \<inter> set (final_failed r) = {} \<and>
         (distinct (input_ids w) \<longrightarrow> distinct (map row_id (final_rows r) @ final_failed r)) \<and>
         (\<forall>row \<in> set (final_rows r). \<exists>key. env_key w = Some key \<and>
            get_movie_data B (TMDBClient_init key) (server w (row_id row)) (draws w (row_id row))
              (row_id row) = Inr (Some row, row_id row))"
proof -
  from main_CompleteD [OF assms(1)] obtain key movie_rows failed_ids where
    key: "env_key w = Some key" and
    c: "collect (\<lambda>mid. get_movie_data B (TMDBClient_init key) (server w mid) (draws w mid) mid)
          (completion w) ([], []) = Inr (movie_rows, failed_ids)" and
    fr: "final_rows r = sort_key row_id movie_rows" and
    ff: "final_failed r = failed_ids"
    by blast
  let ?data = "\<lambda>m. fst (fetch_movie_details (TMDBClient_init key) (server w m) (draws w m)) :: 'f pyval"
  let ?P = "\<lambda>m. truthy B (?data m)"
  have ids: "map row_id movie_rows = filter ?P (completion w)"
    by (rule collect_row_ids [OF c])
  have failed: "failed_ids = filter (\<lambda>m. \<not> ?P m) (completion w)"
    by (rule collect_lists(2) [OF c])
  have ms: "mset (map row_id (final_rows r)) = mset (filter ?P (completion w))"
    using ids fr by (metis mset_map mset_sort)
  have part: "mset (map row_id (final_rows r)) + mset (final_failed r) = mset (input_ids w)"
    unfolding ms ff failed using assms(2) by simp
  have st: "set (map row_id (final_rows r)) = set (filter ?P (completion w))"
    using ms by (rule mset_eq_setD)
  have disj: "set (map row_id (final_rows r)) \<inter> set (final_failed r) = {}"
    unfolding st ff failed by auto
  have dist: "distinct (map row_id (final_rows r) @ final_failed r)" if "distinct (input_ids w)"
  proof -
    from that assms(2) have dc: "distinct (completion w)"
      by (metis mset_eq_imp_distinct_iff)
    then have "distinct (filter ?P (completion w))" by simp
    with ms have "distinct (map row_id (final_rows r))"
      by (metis mset_eq_imp_distinct_iff)
    moreover from dc have "distinct (final_failed r)"
      unfolding ff failed by simp
    ultimately show ?thesis using disj by simp
  qed
  have own: "\<exists>key. env_key w = Some key \<and>
            get_movie_data B (TMDBClient_init key) (server w (row_id row)) (draws w (row_id row))
              (row_id row) = Inr (Some row, row_id row)" if "row \<in> set (final_rows r)" for row
  proof -
    from that fr have "row \<in> set movie_rows" by simp
    with collect_lists(1) [OF c] obtain m where
      m: "m \<in> set (completion w)" "?P m" "row = projr (make_movie_row B m (?data m))"
      by auto
    from collect_lists(3) [OF c] m(1,2) obtain r' where
      r': "make_movie_row B m (?data m) = Inr r'" "row_id r' = m"
      by blast
    with m(3) have "row = r'" by simp
    with r' m(2) have "get_movie_data B (TMDBClient_init key) (server w (row_id row))
        (draws w (row_id row)) (row_id row) = Inr (Some row, row_id row)"
      by (simp add: get_movie_data_def Let_def)
    with key show ?thesis by blast
  qed
  from part disj dist own show ?thesis by blast
qed

text \<open>
  C6. In a run that reaches its end the rows are sorted ascending by identifier, they are the
  list handed to \<open>write_excel\<close>, and had the futures completed in any other order the run
  would have ended with the same rows, handed over and written in the same way.
\<close>

theorem rows_sorted_any_order:
  fixes B :: "'f py_builtins"
  assumes "main B w = Complete r"
    and "mset (completion w) = mset (input_ids w)"
    and "mset order' = mset (input_ids w)"
  shows "sorted (map row_id (final_rows r)) \<and>
         (\<forall>rows. excel_input r = Some rows \<longrightarrow> rows = final_rows r) \<and>
         (\<exists>r'. main B (w\<lparr>completion := order'\<rparr>) = Complete r' \<and>
               final_rows r' = final_rows r \<and> excel_input r' = excel_input r \<and> excel r' = excel r)"
proof -
  from main_CompleteD [OF assms(1)] obtain key movie_rows failed_ids where
    key: "env_key w = Some key" "key \<noteq> []" "input_ids w \<noteq> []" and
    c: "collect (\<lambda>mid. get_movie_data B (TMDBClient_init key) (server w mid) (draws w mid) mid)
          (completion w) ([], []) = Inr (movie_rows, failed_ids)" and
    fr: "final_rows r = sort_key row_id movie_rows" and
    ei: "excel_input r = (if movie_rows \<noteq> [] then Some (sort_key row_id movie_rows) else None)" and
    ex: "excel r = (if movie_rows \<noteq> [] then write_excel (sort_key row_id movie_rows) (excel_error w)
                      else NotWritten)"
    by blast
  let ?task = "\<lambda>mid. get_movie_data B (TMDBClient_init key) (server w mid) (draws w mid) mid"
  let ?data = "\<lambda>m. fst (fetch_movie_details (TMDBClient_init key) (server w m) (draws w m)) :: 'f pyval"
  let ?P = "\<lambda>m. truthy B (?data m)"
  let ?row = "\<lambda>m. projr (make_movie_row B m (?data m))"
  let ?w' = "w\<lparr>completion := order'\<rparr>"
  have srt: "sorted (map row_id (final_rows r))"
    unfolding fr by (rule sorted_sort_key)
  have handed: "\<forall>rows. excel_input r = Some rows \<longrightarrow> rows = final_rows r"
    using ei fr by (simp split: if_splits)
  have same: "mset order' = mset (completion w)"
    using assms(2,3) by simp
  then have "set order' = set (completion w)"
    by (rule mset_eq_setD)
  with collect_Inr [OF c] have "\<forall>m \<in> set order'. \<exists>res. ?task m = Inr res"
    by simp
  from collect_total [OF this] obtain rows' failed' where
    c': "collect ?task order' ([], []) = Inr (rows', failed')"
    by blast
  have rows: "movie_rows = map ?row (filter ?P (completion w))"
    by (rule collect_lists(1) [OF c])
  have rows': "rows' = map ?row (filter ?P order')"
    by (rule collect_lists(1) [OF c'])
  have msr: "mset rows' = mset movie_rows"
    unfolding rows rows' using same by simp
  have inj: "inj_on row_id (set rows')"
  proof (rule inj_onI)
    fix x y assume x: "x \<in> set rows'" and y: "y \<in> set rows'" and eq: "row_id x = row_id y"
    have own: "z = ?row (row_id z)" if "z \<in> set rows'" for z
    proof -
      from that rows' obtain m where m: "m \<in> set order'" "?P m" "z = ?row m" by auto
      from collect_lists(3) [OF c'] m(1,2) obtain r' where
        "make_movie_row B m (?data m) = Inr r'" "row_id r' = m" by blast
      with m(3) show ?thesis by simp
    qed
    from own [OF x] own [OF y] eq show "x = y" by simp
  qed
  have "sort_key row_id rows' = sort_key row_id movie_rows"
  proof (rule sort_key_inj_key_eq [OF _ inj])
    show "mset rows' = mset (sort_key row_id movie_rows)" using msr by simp
    show "sorted (map row_id (sort_key row_id movie_rows))" by (rule sorted_sort_key)
  qed
  moreover from msr have "rows' = [] \<longleftrightarrow> movie_rows = []"
    by (metis mset_zero_iff)
  moreover from main_Complete_fields [of ?w' key B rows' failed'] key c'
  obtain r' where "main B ?w' = Complete r'"
    "final_rows r' = sort_key row_id rows'"
    "excel_input r' = (if rows' \<noteq> [] then Some (sort_key row_id rows') else None)"
    "excel r' = (if rows' \<noteq> [] then write_excel (sort_key row_id rows') (excel_error w) else NotWritten)"
    by auto
  ultimately have "\<exists>r'. main B ?w' = Complete r' \<and>
               final_rows r' = final_rows r \<and> excel_input r' = excel_input r \<and> excel r' = excel r"
    using fr ei ex by (intro exI [of _ r']) simp
  with srt handed show ?thesis by blast
qed

text \<open>
  C1, as the code has it. The test of \<open>get_movie_data\<close> is \<^verbatim>\<open>if not api_data\<close>: in a run that
  reaches its end, an identifier whose fetch result is truthy (a non-empty document) has a
  row, the one \<open>make_movie_row\<close> returns for it, and is not among the failed identifiers; an
  identifier whose fetch result is \<^verbatim>\<open>None\<close> or another false value, the empty document
  included, is among the failed identifiers and has no row.
\<close>

theorem row_or_failure:
  fixes B :: "'f py_builtins"
  assumes "main B w = Complete r"
    and "mset (completion w) = mset (input_ids w)"
    and "env_key w = Some key"
    and "m \<in> set (input_ids w)"
  shows "(truthy B (fst (fetch_movie_details (TMDBClient_init key) (server w m) (draws w m))) \<longrightarrow>
            (\<exists>row \<in> set (final_rows r). row_id row = m \<and>
               make_movie_row B m (fst (fetch_movie_details (TMDBClient_init key) (server w m) (draws w m)))
                 = Inr row) \<and>
            m \<notin> set (final_failed r)) \<and>
         (\<not> truthy B (fst (fetch_movie_details (TMDBClient_init key) (server w m) (draws w m))) \<longrightarrow>
            m \<in> set (final_failed r) \<and> m \<notin> row_id ` set (final_rows r))"
proof -
  from main_CompleteD [OF assms(1)] assms(3) obtain movie_rows failed_ids where
    c: "collect (\<lambda>mid. get_movie_data B (TMDBClient_init key) (server w mid) (draws w mid) mid)
          (completion w) ([], []) = Inr (movie_rows, failed_ids)" and
    fr: "final_rows r = sort_key row_id movie_rows" and
    ff: "final_failed r = failed_ids"
    by auto
  let ?data = "\<lambda>m. fst (fetch_movie_details (TMDBClient_init key) (server w m) (draws w m)) :: 'f pyval"
  let ?P = "\<lambda>m. truthy B (?data m)"
  let ?row = "\<lambda>m. projr (make_movie_row B m (?data m))"
  from assms(2,4) have m: "m \<in> set (completion w)"
    by (metis mset_eq_setD)
  have rows: "movie_rows = map ?row (filter ?P (completion w))"
    by (rule collect_lists(1) [OF c])
  have ids: "map row_id movie_rows = filter ?P (completion w)"
    by (rule collect_row_ids [OF c])
  have failed: "failed_ids = filter (\<lambda>m. \<not> ?P m) (completion w)"
    by (rule collect_lists(2) [OF c])
  have idset: "row_id ` set (final_rows r) = {m \<in> set (completion w). ?P m}"
  proof -
    have "row_id ` set (final_rows r) = set (map row_id movie_rows)"
      unfolding fr by simp
    then show ?thesis unfolding ids by simp
  qed
  show ?thesis
  proof (cases "?P m")
    case True
    from collect_lists(3) [OF c] m True obtain row where
      row: "make_movie_row B m (?data m) = Inr row" "row_id row = m" by blast
    then have "?row m = row" by simp
    with rows m True have "row \<in> set movie_rows" by force
    with fr have "row \<in> set (final_rows r)" by simp
    with row True ff failed show ?thesis by auto
  next
    case False
    with m ff failed idset show ?thesis by auto
  qed
qed


text \<open>
  A run in which every fetch result is false cannot raise: it reaches its end with no row, no
  report, and every identifier failed.
\<close>

lemma zero_success_run:
  fixes B :: "'f py_builtins"
  assumes "env_key w = Some key" and "key \<noteq> []"
    and "input_ids w \<noteq> []"
    and "\<forall>m \<in> set (completion w).
           \<not> truthy B (fst (fetch_movie_details (TMDBClient_init key) (server w m) (draws w m)))"
  shows "\<exists>r. main B w = Complete r \<and> final_rows r = [] \<and> excel r = NotWritten \<and>
             excel_input r = None \<and> final_failed r = completion w \<and>
             processed_count (logged r) = 0 \<and> failed_count (logged r) = length (completion w)"
proof -
  let ?task = "\<lambda>mid. get_movie_data B (TMDBClient_init key) (server w mid) (draws w mid) mid"
  from assms(4) have "\<forall>m \<in> set (completion w). \<exists>res. ?task m = Inr res"
    by (simp add: get_movie_data_def Let_def)
  from collect_total [OF this] obtain movie_rows failed_ids where
    c: "collect ?task (completion w) ([], []) = Inr (movie_rows, failed_ids)"
    by blast
  from collect_lists(1) [OF c] assms(4) have "movie_rows = []"
    by (simp add: filter_empty_conv)
  moreover from collect_lists(2) [OF c] assms(4) have "failed_ids = completion w"
    by (simp add: filter_id_conv)
  ultimately show ?thesis
    using main_Complete_fields [OF assms(1,2,3) c] by auto
qed

section \<open>Evaluation on the sample run\<close>

text \<open>The definitions that evaluating a run unfolds.\<close>

lemmas eval_defs = main_def Config_def get_movie_data_def fetch_movie_details_def py_range_def
  no_trace_def TMDBClient_init_def make_movie_row_def dict_get_def vote_num_def genre_names_def
  strip_def is_space_def sample_builtins_def sample_server_def sample_world_def
  write_excel_def write_failed_ids_def transient_status_def Let_def upt_rec

text \<open>
  The sample run ends with the rows of 550 and 634649 in ascending order, 9999 failed, both
  files written and the summary logged.
\<close>

lemma sample_run: "main sample_builtins sample_world = Complete sample_report"
  by (simp add: eval_defs sample_report_def)

lemma sample_perm: "mset (completion sample_world) = mset (input_ids sample_world)"
  by (simp add: sample_world_def)

text \<open>The partition of the submitted identifiers, on the sample run.\<close>

theorem dispatch_partition_witness:
  "main sample_builtins sample_world = Complete sample_report \<and>
   mset (completion sample_world) = mset (input_ids sample_world) \<and>
   mset (map row_id (final_rows sample_report)) + mset (final_failed sample_report)
     = mset (input_ids sample_world) \<and>
   set (map row_id (final_rows sample_report)) \<inter> set (final_failed sample_report) = {} \<and>
   distinct (input_ids sample_world) \<and>
   distinct (map row_id (final_rows sample_report) @ final_failed sample_report)"
  using dispatch_partition [OF sample_run sample_perm] sample_run sample_perm
  by (simp add: sample_world_def)

text \<open>The same rows for another order of completion, on the sample run.\<close>

theorem rows_sorted_any_order_witness:
  "main sample_builtins sample_world = Complete sample_report \<and>
   mset (completion sample_world) = mset (input_ids sample_world) \<and>
   mset [9999, 550, 634649] = mset (input_ids sample_world) \<and>
   sorted (map row_id (final_rows sample_report)) \<and>
   excel_input sample_report = Some (final_rows sample_report) \<and>
   main sample_builtins (sample_world\<lparr>completion := [9999, 550, 634649]\<rparr>) = Complete sample_report"
proof -
  have other: "mset [9999, 550, 634649] = mset (input_ids sample_world)"
    by (simp add: sample_world_def)
  have run': "main sample_builtins (sample_world\<lparr>completion := [9999, 550, 634649]\<rparr>)
      = Complete sample_report"
    by (simp add: eval_defs sample_report_def)
  from rows_sorted_any_order [OF sample_run sample_perm other] sample_run sample_perm other run'
  show ?thesis
    by (simp add: sample_report_def)
qed

text \<open>
  On the sample run identifier 9999, answered with 404, is failed and has no row, and
  identifier 550, answered with a document, has a row and is not failed.
\<close>

theorem row_or_failure_witness:
  "main sample_builtins sample_world = Complete sample_report \<and>
   mset (completion sample_world) = mset (input_ids sample_world) \<and>
   env_key sample_world = Some ''key'' \<and>
   9999 \<in> set (input_ids sample_world) \<and>
   \<not> truthy sample_builtins (fst (fetch_movie_details (TMDBClient_init ''key'')
        (server sample_world 9999) (draws sample_world 9999))) \<and>
   9999 \<in> set (final_failed sample_report) \<and>
   9999 \<notin> row_id ` set (final_rows sample_report) \<and>
   550 \<in> set (input_ids sample_world) \<and>
   truthy sample_builtins (fst (fetch_movie_details (TMDBClient_init ''key'')
        (server sample_world 550) (draws sample_world 550))) \<and>
   550 \<in> row_id ` set (final_rows sample_report) \<and>
   550 \<notin> set (final_failed sample_report)"
proof -
  have key: "env_key sample_world = Some ''key''"
    by (simp add: sample_world_def)
  have m1: "9999 \<in> set (input_ids sample_world)" and m2: "550 \<in> set (input_ids sample_world)"
    by (simp_all add: sample_world_def)
  have f1: "\<not> truthy sample_builtins (fst (fetch_movie_details (TMDBClient_init ''key'')
        (server sample_world 9999) (draws sample_world 9999)))"
    by (simp add: eval_defs)
  have f2: "truthy sample_builtins (fst (fetch_movie_details (TMDBClient_init ''key'')
        (server sample_world 550) (draws sample_world 550)))"
    by (simp add: eval_defs)
  from row_or_failure [OF sample_run sample_perm key m1]
       row_or_failure [OF sample_run sample_perm key m2]
       sample_run sample_perm key m1 m2 f1 f2
  show ?thesis
    by (simp add: sample_report_def)
qed


text \<open>
  A fetch that returns a record does not always give a row: when the provider answers 200
  with the empty document \<^verbatim>\<open>{}\<close>, the fetcher returns that document, which is not \<^verbatim>\<open>None\<close>,
  and \<open>get_movie_data\<close> counts it as false. The run ends with no row and with the identifier
  among the failed ones, written to the failure report as \<open>fetch-failed\<close>.
\<close>

theorem empty_document_fails:
  "fst (fetch_movie_details (TMDBClient_init ''key'') (\<lambda>k. Response 200 (Some (PDict []))) (\<lambda>k. 0))
     = (PDict [] :: unit pyval) \<and>
   (PDict [] :: unit pyval) \<noteq> PNone \<and>
   main sample_builtins
     (sample_world\<lparr>input_ids := [550], completion := [550],
                   server := (\<lambda>mid k. Response 200 (Some (PDict [])))\<rparr>) =
   Complete
    \<lparr>excel_input = None, excel = NotWritten,
     dead_letter =
       Written [[StrCell ''ID'', StrCell ''Reason'', StrCell ''RowNumber''],
                [IntCell 550, StrCell ''fetch-failed'', StrCell []],
                [StrCell ''abc'', StrCell ''non-numeric'', IntCell 5]],
     final_rows = [], final_failed = [550],
     logged = \<lparr>processed_count = 0, failed_count = 1, skipped_count = 1,
                elapsed_seconds = 2, req_per_sec = 1 / 2\<rparr>\<rparr>"
  by (simp add: eval_defs)


section \<open>Properties of the reader\<close>

text \<open>
  The identifiers the reader passes on are distinct and positive, and the skipped rows are
  recorded in the order of the file, by ascending row number.
\<close>

lemma read_rows_invariant:
  assumes "read_rows py_int cells n (ids, seen, skipped) = (ids', skipped')"
    and "seen = set ids" and "distinct ids" and "\<forall>i \<in> set ids. 0 < i"
    and "sorted (map (\<lambda>(raw, row, reason). row) skipped)"
    and "\<forall>(raw, row, reason) \<in> set skipped. row < n"
  shows "distinct ids' \<and> (\<forall>i \<in> set ids'. 0 < i) \<and>
         sorted (map (\<lambda>(raw, row, reason). row) skipped')"
  using assms
proof (induction cells arbitrary: n ids seen skipped)
  case Nil
  then show ?case by simp
next
  case (Cons c cells)
  let ?v = "strip (case c of None \<Rightarrow> [] | Some s \<Rightarrow> s)"
  have skip: ?case
    if "read_rows py_int cells (n + 1) (ids, seen, skipped @ [(?v, n, why)]) = (ids', skipped')" for why
  proof (rule Cons.IH [OF that Cons.prems(2,3,4)])
    show "sorted (map (\<lambda>(raw, row, reason). row) (skipped @ [(?v, n, why)]))"
      using Cons.prems(5,6) by (fastforce simp: sorted_append)
    show "\<forall>(raw, row, reason) \<in> set (skipped @ [(?v, n, why)]). row < n + 1"
      using Cons.prems(6) by fastforce
  qed
  have keep: ?case
    if "read_rows py_int cells (n + 1) (ids @ [i], insert i seen, skipped) = (ids', skipped')"
      and "0 < i" and "i \<notin> seen" for i
  proof (rule Cons.IH [OF that(1)])
    show "insert i seen = set (ids @ [i])" using Cons.prems(2) by simp
    show "distinct (ids @ [i])" using Cons.prems(2,3) that(3) by simp
    show "\<forall>i \<in> set (ids @ [i]). 0 < i" using Cons.prems(4) that(2) by simp
    show "sorted (map (\<lambda>(raw, row, reason). row) skipped)" by (rule Cons.prems(5))
    show "\<forall>(raw, row, reason) \<in> set skipped. row < n + 1" using Cons.prems(6) by fastforce
  qed
  from Cons.prems(1) show ?case
    using skip keep
    by (auto simp: Let_def split: if_splits option.splits)
qed

lemma read_rows_distinct:
  assumes "read_rows py_int cells 2 ([], {}, []) = (movie_ids, skipped_rows)"
  shows "distinct movie_ids \<and> (\<forall>i \<in> set movie_ids. 0 < i) \<and>
         sorted (map (\<lambda>(raw, row, reason). row) skipped_rows)"
  using read_rows_invariant [OF assms] by simp

end
